theory Spec2Isabelle
  imports Main
begin

section \<open>Python values and strings\<close>

text \<open>
  The tool receives its arguments as a dictionary from field names to JSON-like values.
  \<open>PNone\<close>, \<open>PBool\<close>, \<open>PInt\<close> and \<open>PStr\<close> are the Python values \<open>None\<close>, \<open>bool\<close>,
  \<open>int\<close> and \<open>str\<close>; \<open>POther\<close> stands for every other value (a float, a list, a nested
  dictionary), named by its repr.
\<close>

datatype pyval = PNone | PBool bool | PInt int | PStr string | POther string

type_synonym payload = "string \<rightharpoonup> pyval"

text \<open>
  \<open>str.strip()\<close> without argument removes leading and trailing whitespace. A \<open>char\<close> is
  read as a code point below 256; the whitespace code points in that range are
  9 to 13, 28 to 31, 32, 133 and 160.
\<close>

definition is_space :: "char \<Rightarrow> bool" where
  "is_space c = ((of_char c :: nat) \<in> {9, 10, 11, 12, 13, 28, 29, 30, 31, 32, 133, 160})"

definition strip :: "string \<Rightarrow> string" where
  "strip s = rev (dropWhile is_space (rev (dropWhile is_space s)))"

text \<open>Decimal rendering of a natural number, as an f-string renders a status code.\<close>

definition digit :: "nat \<Rightarrow> char" where
  "digit d = char_of (48 + d)"

function show_nat :: "nat \<Rightarrow> string" where
  "show_nat n = (if n < 10 then [digit n] else show_nat (n div 10) @ [digit (n mod 10)])"
  by pat_completeness auto
termination
  by (relation "measure id") auto

section \<open>The input model \<open>ExtractMarkdownInput\<close>\<close>

record ExtractMarkdownInput =
  url :: "string option"
  html :: "string option"
  precision :: bool
  include_comments :: bool
  include_tables :: bool
  include_images :: bool
  include_links :: bool
  timeout :: int
  output_format :: string

text \<open>
  One entry of the validation error that the model class raises. The comment of each
  constructor gives the source of the entry.
\<close>

datatype violation =
    InvalidType string
      \<comment> \<open>the value of the named field cannot be read at the field's declared type\<close>
  | UrlParseError string
      \<comment> \<open>\<open>urlparse\<close> raised; rewrapped as "Invalid URL format: <cause>"\<close>
  | UrlMissingSchemeOrNetloc
      \<comment> \<open>"Invalid URL format: URL must include scheme and netloc (e.g., https://example.com)"\<close>
  | UrlSchemeNotHttp
      \<comment> \<open>"Invalid URL format: URL scheme must be http or https"\<close>
  | OutputFormatInvalid
      \<comment> \<open>"Output format must be one of: ..."\<close>
  | TimeoutBelowMinimum
      \<comment> \<open>the constraint \<open>ge=5\<close> of the field \<open>timeout\<close>\<close>
  | TimeoutAboveMaximum
      \<comment> \<open>the constraint \<open>le=120\<close> of the field \<open>timeout\<close>\<close>
  | NotExactlyOneSource
      \<comment> \<open>"Provide exactly one of 'url' or 'html'"\<close>

text \<open>
  The libraries the module calls are parameters of the model:
  \<^item> \<open>urlparse\<close> gives the scheme and the netloc of a URL, or the message of the
    \<open>ValueError\<close> it raises;
  \<^item> \<open>lax_str\<close>, \<open>lax_bool\<close> and \<open>lax_int\<close> are the conversions the model class applies
    to a value that is not already of the field's type (\<open>None\<close> when it rejects it);
  \<^item> \<open>str_ValidationError\<close> and \<open>str_McpError\<close> render an exception as text;
  \<^item> \<open>http_get\<close> is the HTTP client and \<open>engine\<close> the extraction engine, both reading
    and changing a world state \<open>'w\<close>.
\<close>

datatype error_code = INVALID_PARAMS | INTERNAL_ERROR | METHOD_NOT_FOUND

datatype http_outcome =
    ResponseText string
      \<comment> \<open>a response with a success status; its body text\<close>
  | TimeoutException
  | HTTPStatusError nat
      \<comment> \<open>\<open>raise_for_status\<close> raised; the status code\<close>
  | TransportError string
      \<comment> \<open>any other exception; its text\<close>

datatype engine_outcome =
    Returned "string option"
  | Raised string
      \<comment> \<open>the engine raised an exception; its text\<close>

record extract_args =
  arg_html :: string
  arg_output_format :: string
  arg_favor_recall :: bool
  arg_include_comments :: bool
  arg_include_tables :: bool
  arg_include_images :: bool
  arg_include_links :: bool

record 'w env =
  urlparse :: "string \<Rightarrow> string + string \<times> string"
  lax_str :: "pyval \<Rightarrow> string option"
  lax_bool :: "pyval \<Rightarrow> bool option"
  lax_int :: "pyval \<Rightarrow> int option"
  str_ValidationError :: "violation list \<Rightarrow> string"
  str_McpError :: "error_code \<Rightarrow> string \<Rightarrow> string"
  http_get :: "'w \<Rightarrow> string \<Rightarrow> int \<Rightarrow> http_outcome \<times> 'w"
  engine :: "'w \<Rightarrow> extract_args \<Rightarrow> engine_outcome \<times> 'w"

subsection \<open>Field validators\<close>

text \<open>\<open>validate_url\<close>: a missing URL passes; otherwise scheme and netloc are checked.\<close>

definition validate_url :: "'w env \<Rightarrow> string option \<Rightarrow> violation + string option" where
  "validate_url E v =
     (case v of
        None \<Rightarrow> Inr None
      | Some u \<Rightarrow>
          (case urlparse E u of
             Inl msg \<Rightarrow> Inl (UrlParseError msg)
           | Inr (scheme, netloc) \<Rightarrow>
               if scheme = [] \<or> netloc = [] then Inl UrlMissingSchemeOrNetloc
               else if scheme \<notin> {''http'', ''https''} then Inl UrlSchemeNotHttp
               else Inr (Some u)))"

definition validate_output_format :: "string \<Rightarrow> violation + string" where
  "validate_output_format v =
     (if v \<notin> {''markdown'', ''txt'', ''xml''} then Inl OutputFormatInvalid else Inr v)"

text \<open>
  \<open>validate_input_source\<close>. \<open>url_provided\<close> is a \<open>bool\<close>. \<open>html_provided\<close> is the value
  of \<open>self.html is not None and self.html.strip()\<close>: \<open>False\<close> when \<open>html\<close> is \<open>None\<close>,
  and the stripped string otherwise. \<open>py_eq_bool\<close> is Python's \<open>==\<close> of a \<open>bool\<close> with
  such a value: a \<open>bool\<close> never equals a \<open>str\<close>.
\<close>

definition html_provided :: "string option \<Rightarrow> bool + string" where
  "html_provided h = (case h of None \<Rightarrow> Inl False | Some s \<Rightarrow> Inr (strip s))"

definition py_eq_bool :: "bool \<Rightarrow> bool + string \<Rightarrow> bool" where
  "py_eq_bool b v = (case v of Inl c \<Rightarrow> b = c | Inr s \<Rightarrow> False)"

definition validate_input_source ::
  "ExtractMarkdownInput \<Rightarrow> violation list + ExtractMarkdownInput" where
  "validate_input_source self =
     (let url_provided = (url self \<noteq> None)
      in if py_eq_bool url_provided (html_provided (html self))
         then Inl [NotExactlyOneSource]
         else Inr self)"

subsection \<open>Reading the fields of a payload\<close>

text \<open>
  A field that is absent takes its default, and its validator does not run. A value of
  the field's own type is taken as it is; any other value goes through the library's
  conversion.
\<close>

definition field_opt_str :: "'w env \<Rightarrow> string \<Rightarrow> payload \<Rightarrow> violation + string option" where
  "field_opt_str E k p =
     (case p k of
        None \<Rightarrow> Inr None
      | Some PNone \<Rightarrow> Inr None
      | Some (PStr s) \<Rightarrow> Inr (Some s)
      | Some v \<Rightarrow> (case lax_str E v of None \<Rightarrow> Inl (InvalidType k) | Some s \<Rightarrow> Inr (Some s)))"

definition field_str :: "'w env \<Rightarrow> string \<Rightarrow> string \<Rightarrow> payload \<Rightarrow> violation + string" where
  "field_str E k d p =
     (case p k of
        None \<Rightarrow> Inr d
      | Some (PStr s) \<Rightarrow> Inr s
      | Some v \<Rightarrow> (case lax_str E v of None \<Rightarrow> Inl (InvalidType k) | Some s \<Rightarrow> Inr s))"

definition field_bool :: "'w env \<Rightarrow> string \<Rightarrow> bool \<Rightarrow> payload \<Rightarrow> violation + bool" where
  "field_bool E k d p =
     (case p k of
        None \<Rightarrow> Inr d
      | Some (PBool b) \<Rightarrow> Inr b
      | Some v \<Rightarrow> (case lax_bool E v of None \<Rightarrow> Inl (InvalidType k) | Some b \<Rightarrow> Inr b))"

definition field_int :: "'w env \<Rightarrow> string \<Rightarrow> int \<Rightarrow> payload \<Rightarrow> violation + int" where
  "field_int E k d p =
     (case p k of
        None \<Rightarrow> Inr d
      | Some (PInt n) \<Rightarrow> Inr n
      | Some v \<Rightarrow> (case lax_int E v of None \<Rightarrow> Inl (InvalidType k) | Some n \<Rightarrow> Inr n))"

definition field_url :: "'w env \<Rightarrow> payload \<Rightarrow> violation + string option" where
  "field_url E p =
     (case field_opt_str E ''url'' p of Inl e \<Rightarrow> Inl e | Inr v \<Rightarrow> validate_url E v)"

definition field_timeout :: "'w env \<Rightarrow> payload \<Rightarrow> violation + int" where
  "field_timeout E p =
     (case p ''timeout'' of
        None \<Rightarrow> Inr 30
      | Some _ \<Rightarrow>
          (case field_int E ''timeout'' 30 p of
             Inl e \<Rightarrow> Inl e
           | Inr n \<Rightarrow>
               if n < 5 then Inl TimeoutBelowMinimum
               else if 120 < n then Inl TimeoutAboveMaximum
               else Inr n))"

definition field_output_format :: "'w env \<Rightarrow> payload \<Rightarrow> violation + string" where
  "field_output_format E p =
     (case p ''output_format'' of
        None \<Rightarrow> Inr ''markdown''
      | Some _ \<Rightarrow>
          (case field_str E ''output_format'' ''markdown'' p of
             Inl e \<Rightarrow> Inl e
           | Inr s \<Rightarrow> validate_output_format s))"

text \<open>
  The model class validates every field and reports the errors of all of them together;
  \<open>both\<close> pairs two field results and joins their errors.
\<close>

definition both :: "violation list + 'a \<Rightarrow> violation list + 'b \<Rightarrow> violation list + 'a \<times> 'b" where
  "both x y =
     (case x of
        Inl e \<Rightarrow> (case y of Inl f \<Rightarrow> Inl (e @ f) | Inr _ \<Rightarrow> Inl e)
      | Inr a \<Rightarrow> (case y of Inl f \<Rightarrow> Inl f | Inr b \<Rightarrow> Inr (a, b)))"

definition lift_field :: "violation + 'a \<Rightarrow> violation list + 'a" where
  "lift_field x = (case x of Inl e \<Rightarrow> Inl [e] | Inr a \<Rightarrow> Inr a)"

definition read_fields ::
  "'w env \<Rightarrow> payload \<Rightarrow>
   violation list +
     string option \<times> string option \<times> bool \<times> bool \<times> bool \<times> bool \<times> bool \<times> int \<times> string" where
  "read_fields E p =
     both (lift_field (field_url E p))
    (both (lift_field (field_opt_str E ''html'' p))
    (both (lift_field (field_bool E ''precision'' True p))
    (both (lift_field (field_bool E ''include_comments'' False p))
    (both (lift_field (field_bool E ''include_tables'' True p))
    (both (lift_field (field_bool E ''include_images'' True p))
    (both (lift_field (field_bool E ''include_links'' True p))
    (both (lift_field (field_timeout E p))
          (lift_field (field_output_format E p)))))))))"

text \<open>
  \<open>ExtractMarkdownInput(**args)\<close>: the fields first; the model validator runs only when
  no field has an error.
\<close>

definition validate :: "'w env \<Rightarrow> payload \<Rightarrow> violation list + ExtractMarkdownInput" where
  "validate E p =
     (case read_fields E p of
        Inl es \<Rightarrow> Inl es
      | Inr (u, h, pr, ic, it, ii, il, t, f) \<Rightarrow>
          validate_input_source
            \<lparr>url = u, html = h, precision = pr, include_comments = ic, include_tables = it,
             include_images = ii, include_links = il, timeout = t, output_format = f\<rparr>)"

section \<open>The extraction pipeline\<close>

text \<open>
  Exceptions are values. \<open>McpError\<close> is the protocol error of the module with its code
  and message; \<open>OtherException\<close> is any other exception, with its text.
\<close>

datatype exn = McpError error_code string | OtherException string

text \<open>
  The state is the world of the collaborators together with a trace of the pipeline
  stages entered so far: the construction of the input model, each HTTP request with
  its outcome, each call of the extraction engine with its outcome. Logging is left out.
\<close>

datatype event =
    EvValidate
  | EvFetch string int http_outcome
  | EvExtract extract_args engine_outcome

type_synonym 'w state = "'w \<times> event list"

definition fetch_url_async :: "'w env \<Rightarrow> string \<Rightarrow> int \<Rightarrow> 'w state \<Rightarrow> (exn + string) \<times> 'w state" where
  "fetch_url_async E u t s =
     (case http_get E (fst s) u t of
        (out, w') \<Rightarrow>
          (let s' = (w', snd s @ [EvFetch u t out])
           in case out of
                ResponseText text \<Rightarrow> (Inr text, s')
              | TimeoutException \<Rightarrow>
                  (Inl (McpError INTERNAL_ERROR (''Timeout fetching URL: '' @ u)), s')
              | HTTPStatusError code \<Rightarrow>
                  (Inl (McpError INTERNAL_ERROR
                     (''HTTP '' @ show_nat code @ '' error fetching URL: '' @ u)), s')
              | TransportError msg \<Rightarrow>
                  (Inl (McpError INTERNAL_ERROR (''Error fetching URL: '' @ msg)), s')))"

definition extract_content_async ::
  "'w env \<Rightarrow> string \<Rightarrow> string \<Rightarrow> bool \<Rightarrow> bool \<Rightarrow> bool \<Rightarrow> bool \<Rightarrow> bool \<Rightarrow> 'w state \<Rightarrow>
   (exn + string option) \<times> 'w state" where
  "extract_content_async E h fmt prec ic it ii il s =
     (let a = \<lparr>arg_html = h, arg_output_format = fmt, arg_favor_recall = (\<not> prec),
                arg_include_comments = ic, arg_include_tables = it,
                arg_include_images = ii, arg_include_links = il\<rparr>
      in case engine E (fst s) a of
           (out, w') \<Rightarrow>
             (let s' = (w', snd s @ [EvExtract a out])
              in case out of
                   Returned r \<Rightarrow> (Inr r, s')
                 | Raised msg \<Rightarrow>
                     (Inl (McpError INTERNAL_ERROR (''Content extraction failed: '' @ msg)), s')))"

text \<open>
  \<open>not x or not x.strip()\<close> for an optional string: \<open>None\<close>, the empty string, or a
  string of whitespace only.
\<close>

definition blank :: "string option \<Rightarrow> bool" where
  "blank x = (case x of None \<Rightarrow> True | Some s \<Rightarrow> s = [] \<or> strip s = [])"

definition empty_content_message :: string where
  "empty_content_message =
     ''Trafilatura returned empty content. The page may not contain extractable text.''"

text \<open>
  The block "Get HTML content" of \<open>extract_markdown_tool\<close>: the URL is fetched when
  \<open>input_data.url\<close> is true (neither \<open>None\<close> nor empty), otherwise the inline HTML is
  taken as it is; content that is \<open>None\<close>, empty or blank is an error.
\<close>

definition acquire_html :: "'w env \<Rightarrow> ExtractMarkdownInput \<Rightarrow> 'w state \<Rightarrow> (exn + string) \<times> 'w state" where
  "acquire_html E input_data s =
     (case (case url input_data of
              None \<Rightarrow> (Inr (html input_data), s)
            | Some u \<Rightarrow>
                if u = [] then (Inr (html input_data), s)
                else (case fetch_url_async E u (timeout input_data) s of
                        (Inl e, s') \<Rightarrow> (Inl e, s')
                      | (Inr text, s') \<Rightarrow> (Inr (Some text), s'))) of
        (Inl e, s') \<Rightarrow> (Inl e, s')
      | (Inr html_content, s') \<Rightarrow>
          (case html_content of
             None \<Rightarrow>
               (Inl (McpError INTERNAL_ERROR ''No HTML content available for extraction''), s')
           | Some h \<Rightarrow>
               if h = [] \<or> strip h = []
               then (Inl (McpError INTERNAL_ERROR ''No HTML content available for extraction''), s')
               else (Inr h, s')))"

text \<open>The body of the outer \<open>try\<close> of \<open>extract_markdown_tool\<close>.\<close>

definition extract_markdown_body :: "'w env \<Rightarrow> payload \<Rightarrow> 'w state \<Rightarrow> (exn + string list) \<times> 'w state" where
  "extract_markdown_body E args s =
     (let s1 = (fst s, snd s @ [EvValidate])
      in case validate E args of
           Inl es \<Rightarrow>
             (Inl (McpError INVALID_PARAMS (''Invalid parameters: '' @ str_ValidationError E es)), s1)
         | Inr input_data \<Rightarrow>
             (case acquire_html E input_data s1 of
                (Inl e, s2) \<Rightarrow> (Inl e, s2)
              | (Inr html_content, s2) \<Rightarrow>
                  (case extract_content_async E html_content (output_format input_data)
                          (precision input_data) (include_comments input_data)
                          (include_tables input_data) (include_images input_data)
                          (include_links input_data) s2 of
                     (Inl e, s3) \<Rightarrow> (Inl e, s3)
                   | (Inr extracted_content, s3) \<Rightarrow>
                       (case extracted_content of
                          None \<Rightarrow> (Inl (McpError INTERNAL_ERROR empty_content_message), s3)
                        | Some text \<Rightarrow>
                            if text = [] \<or> strip text = []
                            then (Inl (McpError INTERNAL_ERROR empty_content_message), s3)
                            else (Inr [strip text], s3)))))"

text \<open>
  \<open>extract_markdown_tool\<close>: an \<open>McpError\<close> is raised again as it is, any other exception
  becomes an \<open>McpError\<close>. The result is the list of text contents.
\<close>

definition extract_markdown_tool :: "'w env \<Rightarrow> payload \<Rightarrow> 'w state \<Rightarrow> (exn + string list) \<times> 'w state" where
  "extract_markdown_tool E args s =
     (case extract_markdown_body E args s of
        (Inl (McpError c m), s') \<Rightarrow> (Inl (McpError c m), s')
      | (Inl (OtherException m), s') \<Rightarrow>
          (Inl (McpError INTERNAL_ERROR (''Unexpected error: '' @ m)), s')
      | (Inr content, s') \<Rightarrow> (Inr content, s'))"

section \<open>The tool protocol\<close>

text \<open>
  The descriptor of the tool, without the description texts: each property with its
  type, default, bounds and allowed values.
\<close>

record property =
  prop_type :: string
  prop_default :: "pyval option"
  prop_minimum :: "int option"
  prop_maximum :: "int option"
  prop_enum :: "string list option"

record input_schema =
  schema_type :: string
  properties :: "(string \<times> property) list"
  oneOf :: "string list list"
  additionalProperties :: bool

record Tool =
  tool_name :: string
  inputSchema :: input_schema

definition mk_prop :: "string \<Rightarrow> pyval option \<Rightarrow> property" where
  "mk_prop ty d = \<lparr>prop_type = ty, prop_default = d, prop_minimum = None,
                prop_maximum = None, prop_enum = None\<rparr>"

definition list_tools :: "Tool list" where
  "list_tools =
     [\<lparr>tool_name = ''extract_markdown'',
       inputSchema =
         \<lparr>schema_type = ''object'',
          properties =
            [(''url'', mk_prop ''string'' None),
             (''html'', mk_prop ''string'' None),
             (''precision'', mk_prop ''boolean'' (Some (PBool True))),
             (''include_comments'', mk_prop ''boolean'' (Some (PBool False))),
             (''include_tables'', mk_prop ''boolean'' (Some (PBool True))),
             (''include_images'', mk_prop ''boolean'' (Some (PBool True))),
             (''include_links'', mk_prop ''boolean'' (Some (PBool True))),
             (''timeout'',
                \<lparr>prop_type = ''integer'', prop_default = Some (PInt 30),
                 prop_minimum = Some 5, prop_maximum = Some 120, prop_enum = None\<rparr>),
             (''output_format'',
                \<lparr>prop_type = ''string'', prop_default = Some (PStr ''markdown''),
                 prop_minimum = None, prop_maximum = None,
                 prop_enum = Some [''markdown'', ''txt'', ''xml'']\<rparr>)],
          oneOf = [[''url''], [''html'']],
          additionalProperties = False\<rparr>\<rparr>]"

record CallToolRequest =
  req_method :: string
  req_name :: string
  req_arguments :: "payload option"

record CallToolResult =
  content :: "string list"
  isError :: bool

text \<open>The \<open>try\<close> of \<open>call_tool\<close>: every outcome of the tool becomes a result.\<close>

definition to_result :: "'w env \<Rightarrow> exn + string list \<Rightarrow> CallToolResult" where
  "to_result E r =
     (case r of
        Inr c \<Rightarrow> \<lparr>content = c, isError = False\<rparr>
      | Inl (McpError code msg) \<Rightarrow> \<lparr>content = [str_McpError E code msg], isError = True\<rparr>
      | Inl (OtherException msg) \<Rightarrow> \<lparr>content = [''Internal error: '' @ msg], isError = True\<rparr>)"

definition call_tool :: "'w env \<Rightarrow> CallToolRequest \<Rightarrow> 'w state \<Rightarrow> (exn + CallToolResult) \<times> 'w state" where
  "call_tool E request s =
     (if req_method request \<noteq> ''tools/call''
      then (Inl (McpError METHOD_NOT_FOUND (''Method not found: '' @ req_method request)), s)
      else if req_name request \<noteq> ''extract_markdown''
      then (Inl (McpError INVALID_PARAMS (''Unknown tool: '' @ req_name request)), s)
      else (case extract_markdown_tool E
                   (case req_arguments request of None \<Rightarrow> Map.empty | Some a \<Rightarrow> a) s of
              (r, s') \<Rightarrow> (Inr (to_result E r), s')))"

section \<open>A concrete environment\<close>

text \<open>
  For evaluation at concrete inputs: a URL parser that takes the scheme before the
  first colon, in lower case, and the netloc between \<open>//\<close> and the next \<open>/\<close>, \<open>?\<close> or
  \<open>#\<close>; conversions that reject every value of another type; an HTTP client that
  answers every request with one fixed page; an engine that returns the text between
  \<open><p>\<close> and \<open></p>\<close> at the start of the document, or nothing. The world counts the
  calls made.
\<close>

definition lower :: "char \<Rightarrow> char" where
  "lower c = (let n = (of_char c :: nat) in if 65 \<le> n \<and> n \<le> 90 then char_of (n + 32) else c)"

definition scheme_char :: "char \<Rightarrow> bool" where
  "scheme_char c =
     (let n = (of_char c :: nat)
      in (65 \<le> n \<and> n \<le> 90) \<or> (97 \<le> n \<and> n \<le> 122) \<or> (48 \<le> n \<and> n \<le> 57) \<or> n \<in> {43, 45, 46})"

definition demo_urlparse :: "string \<Rightarrow> string + string \<times> string" where
  "demo_urlparse u =
     (let pre = takeWhile (\<lambda>c. c \<noteq> CHR '':'') u;
          has_scheme = (length pre < length u \<and> pre \<noteq> [] \<and> list_all scheme_char pre);
          scheme = (if has_scheme then map lower pre else []);
          rest = (if has_scheme then drop (Suc (length pre)) u else u);
          netloc = (if take 2 rest = ''//''
                    then takeWhile (\<lambda>c. c \<notin> {CHR ''/'', CHR ''?'', CHR ''#''}) (drop 2 rest)
                    else [])
      in Inr (scheme, netloc))"

definition demo_engine :: "nat \<Rightarrow> extract_args \<Rightarrow> engine_outcome \<times> nat" where
  "demo_engine w a =
     (let h = dropWhile is_space (arg_html a)
      in if take 3 h = ''<p>''
         then (let t = takeWhile (\<lambda>c. c \<noteq> CHR ''<'') (drop 3 h)
               in (Returned (if t = [] then None else Some t), Suc w))
         else (Returned None, Suc w))"

definition demo_env :: "nat env" where
  "demo_env =
     \<lparr>urlparse = demo_urlparse,
      lax_str = (\<lambda>v. None),
      lax_bool = (\<lambda>v. None),
      lax_int = (\<lambda>v. None),
      str_ValidationError = (\<lambda>es. ''validation error''),
      str_McpError = (\<lambda>c m. m),
      http_get = (\<lambda>w u t. (ResponseText ''<p>Fetched page</p>'', Suc w)),
      engine = demo_engine\<rparr>"

section \<open>Notions used in the statements\<close>

text \<open>The names of the fields that the input model declares.\<close>

definition field_names :: "string set" where
  "field_names = {''url'', ''html'', ''precision'', ''include_comments'', ''include_tables'',
     ''include_images'', ''include_links'', ''timeout'', ''output_format''}"

text \<open>
  The extraction engine is deterministic when its outcome depends on its arguments
  only, not on the world it runs in.
\<close>

definition deterministic :: "'w env \<Rightarrow> bool" where
  "deterministic E = (\<forall>w w' a. fst (engine E w a) = fst (engine E w' a))"

section \<open>Lemmas on validation\<close>

lemma strip_Nil: "strip [] = []" by (simp add: strip_def)

lemma both_Inr_iff: "both x y = Inr (a, b) \<longleftrightarrow> x = Inr a \<and> y = Inr b"
  by (auto simp: both_def split: sum.splits)

lemma lift_field_Inr_iff: "lift_field x = Inr a \<longleftrightarrow> x = Inr a"
  by (auto simp: lift_field_def split: sum.splits)

lemma read_fields_Inr_iff:
  "read_fields E p = Inr (u, h, pr, ic, it, ii, il, t, f) \<longleftrightarrow>
     field_url E p = Inr u \<and> field_opt_str E ''html'' p = Inr h \<and>
     field_bool E ''precision'' True p = Inr pr \<and>
     field_bool E ''include_comments'' False p = Inr ic \<and>
     field_bool E ''include_tables'' True p = Inr it \<and>
     field_bool E ''include_images'' True p = Inr ii \<and>
     field_bool E ''include_links'' True p = Inr il \<and>
     field_timeout E p = Inr t \<and> field_output_format E p = Inr f"
  by (simp add: read_fields_def both_Inr_iff lift_field_Inr_iff)

lemma field_opt_str_cong: "p k = q k \<Longrightarrow> field_opt_str E k p = field_opt_str E k q"
  by (simp add: field_opt_str_def)

lemma field_str_cong: "p k = q k \<Longrightarrow> field_str E k d p = field_str E k d q"
  by (simp add: field_str_def)

lemma field_bool_cong: "p k = q k \<Longrightarrow> field_bool E k d p = field_bool E k d q"
  by (simp add: field_bool_def)

lemma field_int_cong: "p k = q k \<Longrightarrow> field_int E k d p = field_int E k d q"
  by (simp add: field_int_def)

lemma field_url_cong: "p ''url'' = q ''url'' \<Longrightarrow> field_url E p = field_url E q"
  using field_opt_str_cong [of p "''url''" q E] by (simp add: field_url_def)

lemma field_timeout_cong: "p ''timeout'' = q ''timeout'' \<Longrightarrow> field_timeout E p = field_timeout E q"
  using field_int_cong [of p "''timeout''" q E 30] by (simp add: field_timeout_def split: option.split)

lemma field_output_format_cong:
  "p ''output_format'' = q ''output_format'' \<Longrightarrow> field_output_format E p = field_output_format E q"
  using field_str_cong [of p "''output_format''" q E "''markdown''"]
  by (simp add: field_output_format_def split: option.split)

lemma read_fields_cong:
  assumes "\<forall>k\<in>field_names. p k = q k"
  shows "read_fields E p = read_fields E q"
proof -
  have k: "p ''url'' = q ''url''" "p ''html'' = q ''html''" "p ''precision'' = q ''precision''"
    "p ''include_comments'' = q ''include_comments''" "p ''include_tables'' = q ''include_tables''"
    "p ''include_images'' = q ''include_images''" "p ''include_links'' = q ''include_links''"
    "p ''timeout'' = q ''timeout''" "p ''output_format'' = q ''output_format''"
    using assms by (simp_all add: field_names_def)
  show ?thesis
    unfolding read_fields_def
    using field_url_cong [of p q E] field_opt_str_cong [of p "''html''" q E]
      field_bool_cong [of p "''precision''" q E True]
      field_bool_cong [of p "''include_comments''" q E False]
      field_bool_cong [of p "''include_tables''" q E True]
      field_bool_cong [of p "''include_images''" q E True]
      field_bool_cong [of p "''include_links''" q E True]
      field_timeout_cong [of p q E] field_output_format_cong [of p q E] k
    by simp
qed

lemma validate_cong:
  "\<forall>k\<in>field_names. p k = q k \<Longrightarrow> validate E p = validate E q"
  using read_fields_cong [of p q E] by (simp add: validate_def)

lemma validate_input_source_iff:
  "validate_input_source d = (if url d = None \<and> html d = None then Inl [NotExactlyOneSource] else Inr d)"
  by (simp add: validate_input_source_def py_eq_bool_def html_provided_def split: option.splits)


lemma validate_Inr_iff:
  "validate E p = Inr r \<longleftrightarrow>
     read_fields E p = Inr (url r, html r, precision r, include_comments r, include_tables r,
       include_images r, include_links r, timeout r, output_format r) \<and>
     \<not> (url r = None \<and> html r = None)"
  by (cases r) (auto simp: validate_def validate_input_source_iff split: sum.splits)

section \<open>The claims\<close>

text \<open>
  C5. Take a payload that validates once its \<open>timeout\<close> entry is removed. With the
  entry set to an integer \<open>n\<close>, validation fails exactly when \<open>n\<close> is below 5 or above
  120, and otherwise succeeds with \<open>n\<close> as the timeout; 5 and 120 are accepted.
\<close>

theorem timeout_bounds:
  assumes "validate E (p(''timeout'' := None)) = Inr r"
  shows "validate E (p(''timeout'' \<mapsto> PInt n)) =
           (if n < 5 then Inl [TimeoutBelowMinimum]
            else if 120 < n then Inl [TimeoutAboveMaximum]
            else Inr (r\<lparr>timeout := n\<rparr>))"
proof -
  let ?p0 = "p(''timeout'' := None)" and ?p1 = "p(''timeout'' \<mapsto> PInt n)"
  have f0: "field_url E ?p0 = Inr (url r)" "field_opt_str E ''html'' ?p0 = Inr (html r)"
    "field_bool E ''precision'' True ?p0 = Inr (precision r)"
    "field_bool E ''include_comments'' False ?p0 = Inr (include_comments r)"
    "field_bool E ''include_tables'' True ?p0 = Inr (include_tables r)"
    "field_bool E ''include_images'' True ?p0 = Inr (include_images r)"
    "field_bool E ''include_links'' True ?p0 = Inr (include_links r)"
    "field_output_format E ?p0 = Inr (output_format r)"
    and src: "\<not> (url r = None \<and> html r = None)"
    using assms by (simp_all add: validate_Inr_iff read_fields_Inr_iff)
  have f1: "field_url E ?p1 = Inr (url r)" "field_opt_str E ''html'' ?p1 = Inr (html r)"
    "field_bool E ''precision'' True ?p1 = Inr (precision r)"
    "field_bool E ''include_comments'' False ?p1 = Inr (include_comments r)"
    "field_bool E ''include_tables'' True ?p1 = Inr (include_tables r)"
    "field_bool E ''include_images'' True ?p1 = Inr (include_images r)"
    "field_bool E ''include_links'' True ?p1 = Inr (include_links r)"
    "field_output_format E ?p1 = Inr (output_format r)"
    using f0 field_url_cong [of ?p1 ?p0 E] field_opt_str_cong [of ?p1 "''html''" ?p0 E]
      field_bool_cong [of ?p1 "''precision''" ?p0 E True]
      field_bool_cong [of ?p1 "''include_comments''" ?p0 E False]
      field_bool_cong [of ?p1 "''include_tables''" ?p0 E True]
      field_bool_cong [of ?p1 "''include_images''" ?p0 E True]
      field_bool_cong [of ?p1 "''include_links''" ?p0 E True]
      field_output_format_cong [of ?p1 ?p0 E]
    by simp_all
  have t: "field_timeout E ?p1 =
             (if n < 5 then Inl TimeoutBelowMinimum
              else if 120 < n then Inl TimeoutAboveMaximum else Inr n)"
    by (simp add: field_timeout_def field_int_def)
  show ?thesis
    using src
    by (cases r)
       (auto simp: validate_def read_fields_def f1 t both_def lift_field_def
          validate_input_source_iff)
qed


theorem timeout_bounds_witness:
  "validate demo_env ([''html'' \<mapsto> PStr ''<p>x</p>''](''timeout'' \<mapsto> PInt 5)) =
     Inr \<lparr>url = None, html = Some ''<p>x</p>'', precision = True, include_comments = False,
          include_tables = True, include_images = True, include_links = True, timeout = 5,
          output_format = ''markdown''\<rparr>
   \<and> validate demo_env ([''html'' \<mapsto> PStr ''<p>x</p>''](''timeout'' \<mapsto> PInt 121)) =
     Inl [TimeoutAboveMaximum]"
proof -
  have h: "validate demo_env ([''html'' \<mapsto> PStr ''<p>x</p>''](''timeout'' := None)) =
     Inr \<lparr>url = None, html = Some ''<p>x</p>'', precision = True, include_comments = False,
          include_tables = True, include_images = True, include_links = True, timeout = 30,
          output_format = ''markdown''\<rparr>"
    by (simp add: validate_def read_fields_def field_url_def field_opt_str_def field_bool_def
        field_timeout_def field_output_format_def validate_url_def both_def lift_field_def
        validate_input_source_iff)
  show ?thesis
    using timeout_bounds [OF h, of 5] timeout_bounds [OF h, of 121] by simp
qed

lemma read_fields_url_Inl:
  "field_url E p = Inl e \<Longrightarrow> \<exists>es. read_fields E p = Inl (e # es)"
  by (simp add: read_fields_def both_def lift_field_def split: sum.splits)

text \<open>
  C6. For a payload whose \<open>url\<close> is a string: when \<open>urlparse\<close> gives a non-empty netloc
  and the scheme \<open>http\<close> or \<open>https\<close>, the URL passes the check of the field; in every
  other case (the scheme or the netloc is empty, the scheme is another one, or
  \<open>urlparse\<close> raises) the field has a violation and validation of the payload fails
  with it.
\<close>

theorem url_check:
  assumes "p ''url'' = Some (PStr u)"
  shows "((\<exists>scheme netloc. urlparse E u = Inr (scheme, netloc) \<and> netloc \<noteq> [] \<and>
             scheme \<in> {''http'', ''https''})
          \<longrightarrow> field_url E p = Inr (Some u))
       \<and> (\<not> (\<exists>scheme netloc. urlparse E u = Inr (scheme, netloc) \<and> scheme \<noteq> [] \<and> netloc \<noteq> [] \<and>
             scheme \<in> {''http'', ''https''})
          \<longrightarrow> (\<exists>e es. field_url E p = Inl e \<and> validate E p = Inl (e # es) \<and>
                e \<in> {UrlMissingSchemeOrNetloc, UrlSchemeNotHttp} \<union> range UrlParseError))"
proof -
  have f: "field_url E p = validate_url E (Some u)"
    using assms by (simp add: field_url_def field_opt_str_def)
  have ok: "field_url E p = Inr (Some u)"
    if "urlparse E u = Inr (scheme, netloc)" "netloc \<noteq> []" "scheme \<in> {''http'', ''https''}"
    for scheme netloc
    using that by (auto simp: f validate_url_def)
  have bad: "\<exists>e es. field_url E p = Inl e \<and> validate E p = Inl (e # es) \<and>
                e \<in> {UrlMissingSchemeOrNetloc, UrlSchemeNotHttp} \<union> range UrlParseError"
    if n: "\<not> (\<exists>scheme netloc. urlparse E u = Inr (scheme, netloc) \<and> scheme \<noteq> [] \<and> netloc \<noteq> [] \<and>
             scheme \<in> {''http'', ''https''})"
  proof -
    have "\<exists>e. field_url E p = Inl e \<and> e \<in> {UrlMissingSchemeOrNetloc, UrlSchemeNotHttp} \<union> range UrlParseError"
      using n by (auto simp: f validate_url_def split: sum.splits prod.splits)
    then obtain e where e: "field_url E p = Inl e"
      "e \<in> {UrlMissingSchemeOrNetloc, UrlSchemeNotHttp} \<union> range UrlParseError" by blast
    from read_fields_url_Inl [OF e(1)] obtain es where "read_fields E p = Inl (e # es)" by blast
    then have "validate E p = Inl (e # es)" by (simp add: validate_def)
    with e show ?thesis by blast
  qed
  show ?thesis using ok bad by blast
qed

lemma demo_parse_https: "demo_urlparse ''https://example.com'' = Inr (''https'', ''example.com'')"
  by (simp add: demo_urlparse_def scheme_char_def lower_def Let_def)

lemma demo_parse_ftp: "demo_urlparse ''ftp://example.com'' = Inr (''ftp'', ''example.com'')"
  by (simp add: demo_urlparse_def scheme_char_def lower_def Let_def)

theorem url_check_witness:
  "field_url demo_env [''url'' \<mapsto> PStr ''https://example.com''] = Inr (Some ''https://example.com'')
   \<and> (\<exists>es. validate demo_env [''url'' \<mapsto> PStr ''ftp://example.com''] = Inl (UrlSchemeNotHttp # es))"
proof -
  have a: "[''url'' \<mapsto> PStr ''https://example.com''] ''url'' = Some (PStr ''https://example.com'')"
    and b: "[''url'' \<mapsto> PStr ''ftp://example.com''] ''url'' = Some (PStr ''ftp://example.com'')"
    by simp_all
  have pa: "urlparse demo_env ''https://example.com'' = Inr (''https'', ''example.com'')"
    and pb: "urlparse demo_env ''ftp://example.com'' = Inr (''ftp'', ''example.com'')"
    by (simp_all add: demo_env_def demo_parse_https demo_parse_ftp)
  have fb: "field_url demo_env [''url'' \<mapsto> PStr ''ftp://example.com''] = Inl UrlSchemeNotHttp"
    by (simp add: field_url_def field_opt_str_def validate_url_def pb)
  show ?thesis
    using url_check [where p = "[''url'' \<mapsto> PStr ''https://example.com'']"
        and u = "''https://example.com''" and E = demo_env]
      url_check [where p = "[''url'' \<mapsto> PStr ''ftp://example.com'']"
        and u = "''ftp://example.com''" and E = demo_env] a b pa pb fb
    by auto
qed


text \<open>
  C10. A payload that validates still validates, to the same input model, when it is
  extended by keys that are not field names; yet the descriptor of the tool declares
  exactly the field names as properties and \<open>additionalProperties\<close> false.
\<close>

theorem unknown_keys_ignored:
  assumes "validate E p = Inr r" and "dom q \<inter> field_names = {}"
  shows "validate E (p ++ q) = Inr r
       \<and> (\<forall>t\<in>set list_tools. \<not> additionalProperties (inputSchema t)
             \<and> fst ` set (properties (inputSchema t)) = field_names)"
proof -
  have "\<forall>k\<in>field_names. (p ++ q) k = p k"
    using assms(2) by (auto simp: map_add_def split: option.splits)
  then have "validate E (p ++ q) = validate E p" by (rule validate_cong)
  then show ?thesis using assms(1) by (simp add: list_tools_def field_names_def insert_commute)
qed

lemma validate_demo_html:
  "validate demo_env [''html'' \<mapsto> PStr h] =
     Inr \<lparr>url = None, html = Some h, precision = True, include_comments = False,
          include_tables = True, include_images = True, include_links = True, timeout = 30,
          output_format = ''markdown''\<rparr>"
  by (simp add: validate_def read_fields_def field_url_def field_opt_str_def field_bool_def
      field_timeout_def field_output_format_def validate_url_def both_def lift_field_def
      validate_input_source_iff)

theorem unknown_keys_ignored_witness:
  "validate demo_env ([''html'' \<mapsto> PStr ''<p>x</p>''] ++ [''verbose'' \<mapsto> PBool True]) =
     Inr \<lparr>url = None, html = Some ''<p>x</p>'', precision = True, include_comments = False,
          include_tables = True, include_images = True, include_links = True, timeout = 30,
          output_format = ''markdown''\<rparr>
   \<and> \<not> additionalProperties (inputSchema (hd list_tools))"
proof -
  have d: "dom [''verbose'' \<mapsto> PBool True] \<inter> field_names = {}"
    by (simp add: field_names_def)
  show ?thesis
    using unknown_keys_ignored [OF validate_demo_html [of "''<p>x</p>''"] d]
    by (simp add: list_tools_def)
qed

text \<open>
  C2. A payload with both a valid \<open>url\<close> and a non-blank \<open>html\<close> passes validation:
  \<open>validate_input_source\<close> compares the boolean \<open>url_provided\<close> with the stripped
  string, and the two are never equal. The check rejects a payload only when both
  sources are \<open>None\<close> (lemma \<open>validate_input_source_iff\<close>).
\<close>

theorem both_sources_accepted:
  "validate demo_env [''url'' \<mapsto> PStr ''https://example.com'', ''html'' \<mapsto> PStr ''<p>x</p>''] =
     Inr \<lparr>url = Some ''https://example.com'', html = Some ''<p>x</p>'', precision = True,
          include_comments = False, include_tables = True, include_images = True,
          include_links = True, timeout = 30, output_format = ''markdown''\<rparr>"
  by (simp add: validate_def read_fields_def field_url_def field_opt_str_def field_bool_def
      field_timeout_def field_output_format_def validate_url_def both_def lift_field_def
      validate_input_source_iff demo_env_def demo_parse_https)

section \<open>Lemmas on the pipeline\<close>

lemma fetch_url_async_exn:
  "fetch_url_async E u t s = (Inl e, s') \<Longrightarrow> \<exists>m. e = McpError INTERNAL_ERROR m"
  by (auto simp: fetch_url_async_def Let_def split: prod.splits http_outcome.splits)

lemma fetch_url_async_trace:
  "fetch_url_async E u t s = (r, s') \<Longrightarrow> \<exists>out. snd s' = snd s @ [EvFetch u t out]"
  by (auto simp: fetch_url_async_def Let_def split: prod.splits http_outcome.splits)

lemma acquire_html_exn:
  "acquire_html E d s = (Inl e, s') \<Longrightarrow> \<exists>m. e = McpError INTERNAL_ERROR m"
  by (auto simp: acquire_html_def split: option.splits if_splits prod.splits sum.splits
      dest: fetch_url_async_exn)

lemma acquire_html_trace:
  "acquire_html E d s = (r, s') \<Longrightarrow>
     snd s' = snd s \<or> (\<exists>u t out. snd s' = snd s @ [EvFetch u t out])"
  by (auto simp: acquire_html_def split: option.splits if_splits prod.splits sum.splits
      dest: fetch_url_async_trace)

lemma acquire_html_inline:
  "url d = None \<Longrightarrow>
   acquire_html E d s =
     (case html d of
        None \<Rightarrow> Inl (McpError INTERNAL_ERROR ''No HTML content available for extraction'')
      | Some h \<Rightarrow>
          if strip h = []
          then Inl (McpError INTERNAL_ERROR ''No HTML content available for extraction'')
          else Inr h, s)"
  by (auto simp: acquire_html_def strip_Nil split: option.splits)

lemma extract_content_async_exn:
  "extract_content_async E h f pr ic it ii il s = (Inl e, s') \<Longrightarrow> \<exists>m. e = McpError INTERNAL_ERROR m"
  by (auto simp: extract_content_async_def Let_def split: prod.splits engine_outcome.splits)

lemma extract_markdown_body_exn:
  "extract_markdown_body E args s = (Inl e, s') \<Longrightarrow> \<exists>c m. e = McpError c m"
  by (auto simp: extract_markdown_body_def Let_def
      split: sum.splits prod.splits option.splits if_splits
      dest: acquire_html_exn extract_content_async_exn)

lemma extract_markdown_tool_eq_body:
  "extract_markdown_tool E args s = extract_markdown_body E args s"
proof -
  obtain r s' where b: "extract_markdown_body E args s = (r, s')"
    by (cases "extract_markdown_body E args s") auto
  then show ?thesis
    by (cases r) (auto simp: extract_markdown_tool_def dest: extract_markdown_body_exn)
qed


text \<open>
  C8. When validation of the arguments fails, the tool raises the invalid-parameters
  error at once: the world is unchanged and the trace gains the validation stage only,
  so no HTTP request and no engine call is made; \<open>call_tool\<close> returns that error as a
  result with the error flag set.
\<close>

theorem validation_failure_stops:
  assumes "validate E args = Inl es"
  shows "extract_markdown_tool E args s =
           (Inl (McpError INVALID_PARAMS (''Invalid parameters: '' @ str_ValidationError E es)),
            (fst s, snd s @ [EvValidate]))
       \<and> call_tool E \<lparr>req_method = ''tools/call'', req_name = ''extract_markdown'',
                       req_arguments = Some args\<rparr> s =
           (Inr \<lparr>content = [str_McpError E INVALID_PARAMS
                                (''Invalid parameters: '' @ str_ValidationError E es)],
                 isError = True\<rparr>,
            (fst s, snd s @ [EvValidate]))"
  using assms
  by (simp add: call_tool_def to_result_def extract_markdown_tool_def extract_markdown_body_def)

theorem validation_failure_stops_witness:
  "extract_markdown_tool demo_env
     [''url'' \<mapsto> PStr ''https://example.com'', ''timeout'' \<mapsto> PInt 1] (0, []) =
     (Inl (McpError INVALID_PARAMS ''Invalid parameters: validation error''), (0, [EvValidate]))"
proof -
  have h: "validate demo_env [''url'' \<mapsto> PStr ''https://example.com'', ''timeout'' \<mapsto> PInt 1] =
     Inl [TimeoutBelowMinimum]"
    by (simp add: validate_def read_fields_def field_url_def field_opt_str_def field_bool_def
        field_timeout_def field_int_def field_output_format_def validate_url_def both_def
        lift_field_def demo_env_def demo_parse_https)
  show ?thesis
    using validation_failure_stops [OF h, of "(0, [])"] by (simp add: demo_env_def)
qed

text \<open>
  C3. A tool call under the method \<open>tools/call\<close> whose tool name is not
  \<open>extract_markdown\<close> raises the protocol error "Unknown tool: <name>" with the code
  for invalid parameters; it returns no result, and the state is unchanged: no
  validation, no HTTP request, no engine call.
\<close>

theorem unknown_tool_raises:
  assumes "req_method request = ''tools/call''" and "req_name request \<noteq> ''extract_markdown''"
  shows "call_tool E request s =
           (Inl (McpError INVALID_PARAMS (''Unknown tool: '' @ req_name request)), s)"
  using assms by (simp add: call_tool_def)

theorem unknown_tool_raises_witness:
  "call_tool demo_env \<lparr>req_method = ''tools/call'', req_name = ''foo'',
      req_arguments = Some [''html'' \<mapsto> PStr ''<p>x</p>'']\<rparr> (0, []) =
     (Inl (McpError INVALID_PARAMS ''Unknown tool: foo''), (0, []))"
  using unknown_tool_raises [of "\<lparr>req_method = ''tools/call'', req_name = ''foo'',
      req_arguments = Some [''html'' \<mapsto> PStr ''<p>x</p>'']\<rparr>" demo_env "(0, [])"]
  by simp

theorem unknown_tool_counterexample:
  "fst (call_tool demo_env \<lparr>req_method = ''tools/call'', req_name = ''foo'',
      req_arguments = None\<rparr> (0, [])) \<noteq>
     Inr \<lparr>content = [''Unknown tool: foo''], isError = True\<rparr>
   \<and> isl (fst (call_tool demo_env \<lparr>req_method = ''tools/call'', req_name = ''foo'',
      req_arguments = None\<rparr> (0, [])))"
  by (simp add: call_tool_def)

text \<open>
  C1. Under the method \<open>tools/call\<close>: for the tool \<open>extract_markdown\<close>, \<open>call_tool\<close>
  always returns a result, whose error flag is set exactly when the tool raised; the
  conversion of the tool's outcome sets the flag for every exception, also one that is
  not a protocol error. For any other tool name \<open>call_tool\<close> raises a protocol error
  and returns nothing.
\<close>

theorem call_tool_outcomes:
  assumes "req_method request = ''tools/call''"
  shows "(req_name request = ''extract_markdown'' \<longrightarrow>
            (\<exists>res. fst (call_tool E request s) = Inr res \<and>
               isError res =
                 isl (fst (extract_markdown_tool E
                   (case req_arguments request of None \<Rightarrow> Map.empty | Some a \<Rightarrow> a) s))))
       \<and> (req_name request \<noteq> ''extract_markdown'' \<longrightarrow>
            (\<exists>msg. fst (call_tool E request s) = Inl (McpError INVALID_PARAMS msg)))
       \<and> (\<forall>outcome. isError (to_result E outcome) = isl outcome)"
proof -
  have conv: "isError (to_result E outcome) = isl outcome" for outcome
    by (auto simp: to_result_def split: sum.splits exn.splits)
  show ?thesis
    using assms conv by (auto simp: call_tool_def split: prod.splits)
qed

theorem call_tool_outcomes_witness:
  "(\<exists>res. fst (call_tool demo_env \<lparr>req_method = ''tools/call'', req_name = ''extract_markdown'',
      req_arguments = None\<rparr> (0, [])) = Inr res \<and> isError res)"
proof -
  have v: "validate demo_env Map.empty = Inl [NotExactlyOneSource]"
    by (simp add: validate_def read_fields_def field_url_def field_opt_str_def field_bool_def
        field_timeout_def field_output_format_def validate_url_def both_def lift_field_def
        validate_input_source_iff)
  have "isl (fst (extract_markdown_tool demo_env Map.empty (0, [])))"
    by (simp add: extract_markdown_tool_def extract_markdown_body_def v)
  then show ?thesis
    using call_tool_outcomes [of "\<lparr>req_method = ''tools/call'', req_name = ''extract_markdown'',
      req_arguments = None\<rparr>" demo_env "(0, [])"]
    by simp
qed

theorem call_tool_raises_counterexample:
  "call_tool demo_env \<lparr>req_method = ''tools/call'', req_name = ''bar'',
      req_arguments = Some [''html'' \<mapsto> PStr ''<p>x</p>'']\<rparr> (0, []) =
     (Inl (McpError INVALID_PARAMS ''Unknown tool: bar''), (0, []))"
  by (simp add: call_tool_def)


lemma validate_url_absent:
  assumes "validate E p = Inr d" and "p ''url'' = None"
  shows "url d = None"
proof -
  have "field_url E p = Inr (url d)"
    using assms(1) by (simp add: validate_Inr_iff read_fields_Inr_iff)
  then show ?thesis
    using assms(2) by (simp add: field_url_def field_opt_str_def validate_url_def)
qed

text \<open>
  C4. For a validated request without a URL, the inline HTML is present and is handed
  on exactly as supplied, not trimmed; it is rejected when it is blank. The state is
  unchanged, so no HTTP request is made.
\<close>

theorem inline_html_verbatim:
  assumes "validate E p = Inr d" and "url d = None"
  shows "\<exists>h. html d = Some h \<and>
           acquire_html E d s =
             (if strip h = []
              then Inl (McpError INTERNAL_ERROR ''No HTML content available for extraction'')
              else Inr h, s)"
proof -
  have "html d \<noteq> None"
    using assms by (simp add: validate_Inr_iff)
  then obtain h where "html d = Some h" by blast
  then show ?thesis
    using acquire_html_inline [OF assms(2), of E s] by simp
qed

lemma strip_demo: "strip '' <p>Hello</p> '' = ''<p>Hello</p>''"
  by (simp add: strip_def is_space_def)

theorem inline_html_verbatim_witness:
  "acquire_html demo_env
     \<lparr>url = None, html = Some '' <p>Hello</p> '', precision = True, include_comments = False,
      include_tables = True, include_images = True, include_links = True, timeout = 30,
      output_format = ''markdown''\<rparr> (0, []) = (Inr '' <p>Hello</p> '', (0, []))"
  using inline_html_verbatim [OF validate_demo_html [of "'' <p>Hello</p> ''"], of "(0, [])"]
  by (simp add: strip_demo)

theorem inline_html_trimmed_counterexample:
  "validate demo_env [''html'' \<mapsto> PStr '' <p>Hello</p> ''] =
     Inr \<lparr>url = None, html = Some '' <p>Hello</p> '', precision = True, include_comments = False,
          include_tables = True, include_images = True, include_links = True, timeout = 30,
          output_format = ''markdown''\<rparr>
   \<and> fst (acquire_html demo_env
       \<lparr>url = None, html = Some '' <p>Hello</p> '', precision = True, include_comments = False,
        include_tables = True, include_images = True, include_links = True, timeout = 30,
        output_format = ''markdown''\<rparr> (0, [])) \<noteq> Inr (strip '' <p>Hello</p> '')"
  by (simp add: validate_demo_html acquire_html_def strip_demo)


lemma extract_content_async_run:
  assumes "extract_content_async E h f pr ic it ii il s = (r, s')"
  shows "\<exists>a out. snd s' = snd s @ [EvExtract a out] \<and>
       r = (case out of Returned x \<Rightarrow> Inr x
            | Raised m \<Rightarrow> Inl (McpError INTERNAL_ERROR (''Content extraction failed: '' @ m)))"
proof -
  let ?a = "\<lparr>arg_html = h, arg_output_format = f, arg_favor_recall = (\<not> pr),
             arg_include_comments = ic, arg_include_tables = it,
             arg_include_images = ii, arg_include_links = il\<rparr>"
  obtain out w' where e: "engine E (fst s) ?a = (out, w')"
    by (cases "engine E (fst s) ?a") auto
  have "snd s' = snd s @ [EvExtract ?a out] \<and>
       r = (case out of Returned x \<Rightarrow> Inr x
            | Raised m \<Rightarrow> Inl (McpError INTERNAL_ERROR (''Content extraction failed: '' @ m)))"
    using assms e
    by (auto simp: extract_content_async_def Let_def split: engine_outcome.splits)
  then show ?thesis by blast
qed

lemma extract_markdown_body_run:
  assumes "extract_markdown_body E args s = (r, s')" and "snd s' = snd s @ evs"
  shows "(\<forall>a x. EvExtract a (Returned x) \<in> set evs \<and> blank x \<longrightarrow>
            r = Inl (McpError INTERNAL_ERROR empty_content_message))
       \<and> (\<forall>c. r = Inr c \<longrightarrow> (\<exists>t. c = [t] \<and> t \<noteq> []))"
proof (cases "validate E args")
  case (Inl es)
  then show ?thesis
    using assms by (auto simp: extract_markdown_body_def)
next
  case (Inr d)
  let ?s1 = "(fst s, snd s @ [EvValidate])"
  obtain ra s2 where acq: "acquire_html E d ?s1 = (ra, s2)"
    by (cases "acquire_html E d ?s1") auto
  from acquire_html_trace [OF acq]
  have tr2: "snd s2 = snd s @ [EvValidate] \<or>
             (\<exists>u t out. snd s2 = snd s @ [EvValidate, EvFetch u t out])"
    by auto
  show ?thesis
  proof (cases ra)
    case (Inl e)
    then have "r = Inl e" "s' = s2"
      using assms(1) Inr acq by (auto simp: extract_markdown_body_def)
    then show ?thesis using tr2 assms(2) by auto
  next
    case h: (Inr h)
    obtain rx s3 where ex: "extract_content_async E h (output_format d) (precision d)
        (include_comments d) (include_tables d) (include_images d) (include_links d) s2 = (rx, s3)"
      by (cases "extract_content_async E h (output_format d) (precision d)
        (include_comments d) (include_tables d) (include_images d) (include_links d) s2") auto
    from extract_content_async_run [OF ex] obtain a out where
      tr3: "snd s3 = snd s2 @ [EvExtract a out]" and
      rx: "rx = (case out of Returned x \<Rightarrow> Inr x
            | Raised m \<Rightarrow> Inl (McpError INTERNAL_ERROR (''Content extraction failed: '' @ m)))"
      by blast
    have s': "s' = s3"
      using assms(1) Inr acq h ex
      by (auto simp: extract_markdown_body_def split: sum.splits option.splits if_splits)
    have r: "r = (case rx of Inl e \<Rightarrow> Inl e
                  | Inr x \<Rightarrow> if blank x then Inl (McpError INTERNAL_ERROR empty_content_message)
                             else Inr [strip (the x)])"
      using assms(1) Inr acq h ex
      by (auto simp: extract_markdown_body_def blank_def split: sum.splits option.splits if_splits)
    have evs: "evs = [EvValidate, EvExtract a out] \<or>
               (\<exists>u t o'. evs = [EvValidate, EvFetch u t o', EvExtract a out])"
      using tr2 tr3 assms(2) s' by auto
    have one: "r = Inl (McpError INTERNAL_ERROR empty_content_message)"
      if "EvExtract b (Returned x) \<in> set evs" "blank x" for b x
    proof -
      have "out = Returned x" using that(1) evs by auto
      then show ?thesis using r rx that(2) by simp
    qed
    have two: "\<exists>t. c = [t] \<and> t \<noteq> []" if "r = Inr c" for c
      using that r by (auto simp: blank_def split: sum.splits if_splits option.splits)
    show ?thesis using one two by blast
  qed
qed

text \<open>
  C7. In a run of the tool in which the engine was called and returned nothing, the
  empty string or a blank string, the tool raises the error "Trafilatura returned empty
  content ...", which \<open>call_tool\<close> turns into a result with the error flag set. A
  successful run never has an empty text.
\<close>

theorem empty_extraction_is_failure:
  assumes "extract_markdown_tool E args s = (r, s')" and "snd s' = snd s @ evs"
  shows "(\<forall>a x. EvExtract a (Returned x) \<in> set evs \<and> blank x \<longrightarrow>
            r = Inl (McpError INTERNAL_ERROR empty_content_message) \<and>
            to_result E r =
              \<lparr>content = [str_McpError E INTERNAL_ERROR empty_content_message], isError = True\<rparr>)
       \<and> (\<forall>c. r = Inr c \<longrightarrow> (\<exists>t. c = [t] \<and> t \<noteq> []))"
proof -
  have "extract_markdown_body E args s = (r, s')"
    using assms(1) by (simp add: extract_markdown_tool_eq_body)
  from extract_markdown_body_run [OF this assms(2)] show ?thesis
    by (auto simp: to_result_def)
qed


lemma demo_env_sel:
  "engine demo_env = demo_engine"
  "str_McpError demo_env = (\<lambda>c m. m)"
  "str_ValidationError demo_env = (\<lambda>es. ''validation error'')"
  "http_get demo_env = (\<lambda>w u t. (ResponseText ''<p>Fetched page</p>'', Suc w))"
  by (simp_all add: demo_env_def)

lemma demo_run_empty:
  "extract_markdown_tool demo_env [''html'' \<mapsto> PStr ''<p></p>''] (0, []) =
     (Inl (McpError INTERNAL_ERROR empty_content_message),
      (1, [EvValidate,
           EvExtract \<lparr>arg_html = ''<p></p>'', arg_output_format = ''markdown'',
                      arg_favor_recall = False, arg_include_comments = False,
                      arg_include_tables = True, arg_include_images = True,
                      arg_include_links = True\<rparr> (Returned None)]))"
  by (simp add: extract_markdown_tool_def extract_markdown_body_def validate_demo_html
      acquire_html_def extract_content_async_def demo_env_sel demo_engine_def strip_def
      is_space_def Let_def)

theorem empty_extraction_is_failure_witness:
  "blank None
   \<and> to_result demo_env (fst (extract_markdown_tool demo_env [''html'' \<mapsto> PStr ''<p></p>''] (0, []))) =
       \<lparr>content = [empty_content_message], isError = True\<rparr>"
  using empty_extraction_is_failure [OF demo_run_empty,
      of "[EvValidate,
           EvExtract \<lparr>arg_html = ''<p></p>'', arg_output_format = ''markdown'',
                      arg_favor_recall = False, arg_include_comments = False,
                      arg_include_tables = True, arg_include_images = True,
                      arg_include_links = True\<rparr> (Returned None)]"]
  by (simp add: blank_def demo_env_sel demo_run_empty)

lemma extract_content_async_deterministic:
  assumes "deterministic E"
  shows "fst (extract_content_async E h f pr ic it ii il s) =
         fst (extract_content_async E h f pr ic it ii il s2)"
proof -
  let ?a = "\<lparr>arg_html = h, arg_output_format = f, arg_favor_recall = (\<not> pr),
             arg_include_comments = ic, arg_include_tables = it,
             arg_include_images = ii, arg_include_links = il\<rparr>"
  have "fst (engine E (fst s) ?a) = fst (engine E (fst s2) ?a)"
    using assms by (simp add: deterministic_def)
  then show ?thesis
    by (auto simp: extract_content_async_def Let_def split: prod.splits engine_outcome.splits)
qed

lemma extract_markdown_body_deterministic:
  assumes "deterministic E" and "args ''url'' = None"
  shows "fst (extract_markdown_body E args s) = fst (extract_markdown_body E args s2)"
proof (cases "validate E args")
  case (Inl es)
  then show ?thesis by (simp add: extract_markdown_body_def)
next
  case (Inr d)
  have u: "url d = None" using Inr assms(2) by (rule validate_url_absent)
  show ?thesis
  proof (cases "html d")
    case None
    then show ?thesis
      by (simp add: extract_markdown_body_def Inr acquire_html_inline [OF u])
  next
    case (Some h)
    show ?thesis
    proof (cases "strip h = []")
      case True
      then show ?thesis
        by (simp add: extract_markdown_body_def Inr Some acquire_html_inline [OF u])
    next
      case False
      let ?run = "\<lambda>s. extract_content_async E h (output_format d) (precision d)
        (include_comments d) (include_tables d) (include_images d) (include_links d) s"
      obtain r1 t1 where a1: "?run (fst s, snd s @ [EvValidate]) = (r1, t1)"
        by (cases "?run (fst s, snd s @ [EvValidate])") auto
      obtain r2 t2 where a2: "?run (fst s2, snd s2 @ [EvValidate]) = (r2, t2)"
        by (cases "?run (fst s2, snd s2 @ [EvValidate])") auto
      have "fst (?run (fst s, snd s @ [EvValidate])) = fst (?run (fst s2, snd s2 @ [EvValidate]))"
        using assms(1) by (rule extract_content_async_deterministic)
      then have e: "r1 = r2" by (simp add: a1 a2)
      show ?thesis
        using False
        by (simp add: extract_markdown_body_def Inr Some acquire_html_inline [OF u] a1 a2 e
            split: sum.splits option.splits)
    qed
  qed
qed

text \<open>
  C9. With a deterministic engine, running the extraction a second time, in the state
  the first run left, gives the same outcome as the first run: for the engine call
  \<open>extract_content_async\<close> with the same HTML and options, and for the whole tool on
  the same arguments when they carry no URL.
\<close>

theorem extraction_repeatable:
  assumes "deterministic E"
  shows "fst (extract_content_async E h f pr ic it ii il
                (snd (extract_content_async E h f pr ic it ii il s))) =
         fst (extract_content_async E h f pr ic it ii il s)
       \<and> (args ''url'' = None \<longrightarrow>
            fst (extract_markdown_tool E args (snd (extract_markdown_tool E args s))) =
            fst (extract_markdown_tool E args s))"
  using extract_content_async_deterministic [OF assms]
    extract_markdown_body_deterministic [OF assms]
  by (simp add: extract_markdown_tool_eq_body)

lemma deterministic_demo: "deterministic demo_env"
  by (simp add: deterministic_def demo_env_sel demo_engine_def Let_def)

theorem extraction_repeatable_witness:
  "fst (extract_markdown_tool demo_env [''html'' \<mapsto> PStr ''<p>Hello</p>'']
          (snd (extract_markdown_tool demo_env [''html'' \<mapsto> PStr ''<p>Hello</p>''] (0, [])))) =
   Inr [''Hello'']"
proof -
  have run: "fst (extract_markdown_tool demo_env [''html'' \<mapsto> PStr ''<p>Hello</p>''] (0, [])) =
     Inr [''Hello'']"
    by (simp add: extract_markdown_tool_def extract_markdown_body_def validate_demo_html
      acquire_html_def extract_content_async_def demo_env_sel demo_engine_def strip_def
      is_space_def Let_def)
  show ?thesis
    using extraction_repeatable [OF deterministic_demo,
        where args = "[''html'' \<mapsto> PStr ''<p>Hello</p>'']" and s = "(0, [])"] run
    by simp
qed

end
